theory Spec2Isabelle
  imports Main
begin

section \<open>Python built-ins used by the chart extractor\<close>

text \<open>
  The program is \<^verbatim>\<open>IMDBapp/control_panel.py\<close> (the Flask control panel) and
  \<^verbatim>\<open>IMDBapp/proyecto_imdb/spiders/imdb.py\<close> (the Scrapy spider).
  A Python \<^verbatim>\<open>str\<close> is modelled as a \<open>string\<close>, one \<open>char\<close> per code point, so the
  model covers texts whose code points lie below 256. In that range the regular
  expression class \<^verbatim>\<open>\d\<close> is exactly the ten ASCII digits and case-insensitive
  matching of an ASCII letter is ASCII case folding. Python integers are unbounded
  and are modelled as \<open>int\<close>; reading one from a decimal text is bounded by the
  interpreter's limit of 4300 digits, beyond which \<^verbatim>\<open>int()\<close> raises \<^verbatim>\<open>ValueError\<close>.
  An exception that the program does not catch is a value of the type \<open>error\<close>.
\<close>

datatype error =
    TransportError
  | HTTPError int
  | TypeError
  | AttributeError
  | ValueError
  | RecursionError

definition int_max_str_digits :: nat where
  \<comment> \<open>the default of \<^verbatim>\<open>sys.get_int_max_str_digits()\<close>\<close>
  "int_max_str_digits = 4300"

definition is_digit :: "char \<Rightarrow> bool" where
  "is_digit c = (c \<in> set ''0123456789'')"

definition digit_val :: "char \<Rightarrow> int" where
  "digit_val c = int (of_char c) - 48"

definition int_of_digits :: "string \<Rightarrow> error + int" where
  \<comment> \<open>\<^verbatim>\<open>int(s)\<close> for a string \<open>s\<close> of decimal digits: \<^verbatim>\<open>ValueError\<close> when \<open>s\<close> has more
      digits than the limit, leading zeros included\<close>
  "int_of_digits s =
     (if int_max_str_digits < length s then Inl ValueError
      else Inr (foldl (\<lambda>n c. 10 * n + digit_val c) 0 s))"

definition is_space :: "char \<Rightarrow> bool" where
  \<comment> \<open>the code points below 256 that \<^verbatim>\<open>str.strip()\<close> removes\<close>
  "is_space c = ((of_char c :: nat) \<in> {9, 10, 11, 12, 13, 28, 29, 30, 31, 32, 133, 160})"

definition py_strip :: "string \<Rightarrow> string" where
  "py_strip s = rev (dropWhile is_space (rev (dropWhile is_space s)))"

definition is_int_space :: "char \<Rightarrow> bool" where
  \<comment> \<open>the code points below 256 that \<^verbatim>\<open>int()\<close> accepts around a number\<close>
  "is_int_space c = ((of_char c :: nat) \<in> {9, 10, 11, 12, 13, 32, 133, 160})"

fun digits_us :: "string \<Rightarrow> string option" where
  \<comment> \<open>digits with single underscores between them; the result drops the underscores\<close>
  "digits_us [] = None"
| "digits_us [c] = (if is_digit c then Some [c] else None)"
| "digits_us (c # d # cs) =
     (if is_digit c
      then (if d = CHR ''_'' then map_option ((#) c) (digits_us cs)
            else map_option ((#) c) (digits_us (d # cs)))
      else None)"

definition py_int :: "string option \<Rightarrow> int option" where
  \<comment> \<open>a decimal reader in the manner of \<^verbatim>\<open>int(value)\<close>: \<open>None\<close> stands for the
      \<^verbatim>\<open>TypeError\<close> raised on \<^verbatim>\<open>None\<close> and the \<^verbatim>\<open>ValueError\<close> raised on a malformed text
      or on more digits than the limit\<close>
  "py_int value =
     (case value of
        None \<Rightarrow> None
      | Some s \<Rightarrow>
          (let t = rev (dropWhile is_int_space (rev (dropWhile is_int_space s)));
               (sign, body) = (case t of
                                 [] \<Rightarrow> (1, t)
                               | c # r \<Rightarrow> if c = CHR ''-'' then (- 1, r)
                                          else if c = CHR ''+'' then (1, r) else (1, t))
           in case digits_us body of
                None \<Rightarrow> None
              | Some ds \<Rightarrow>
                  (case int_of_digits ds of Inl e \<Rightarrow> None | Inr n \<Rightarrow> Some (sign * n))))"

definition py_slice_to :: "int \<Rightarrow> 'a list \<Rightarrow> 'a list" where
  \<comment> \<open>\<^verbatim>\<open>xs[:n]\<close>: a negative \<open>n\<close> counts from the end\<close>
  "py_slice_to n xs =
     (if 0 \<le> n then take (nat n) xs else take (nat (int (length xs) + n)) xs)"

section \<open>Filters and their normalisation\<close>

definition DEFAULT_CHART_URL :: string where
  "DEFAULT_CHART_URL = ''https://www.imdb.com/es-es/chart/top/?ref_=hm_nv_menu''"

definition SORT_OPTIONS :: "(string \<times> string) list" where
  "SORT_OPTIONS =
     [(''RANKING'', ''Ranking (default)''),
      (''USER_RATING'', ''IMDb rating''),
      (''RELEASE_DATE'', ''Release date''),
      (''USER_RATING_COUNT'', ''Rating count''),
      (''TITLE_REGIONAL'', ''Title (regional)''),
      (''POPULARITY'', ''Popularity''),
      (''RUNTIME'', ''Runtime'')]"

definition SORT_PARAM_VALUES :: "(string \<times> string) list" where
  "SORT_PARAM_VALUES =
     [(''USER_RATING'', ''user_rating''),
      (''RELEASE_DATE'', ''release_date''),
      (''USER_RATING_COUNT'', ''user_rating_count''),
      (''TITLE_REGIONAL'', ''title_regional''),
      (''POPULARITY'', ''popularity''),
      (''RUNTIME'', ''runtime'')]"

record ChartFilters =
  limit :: int
  sort' :: string
  direction :: string

definition normalize_limit :: "(string option \<Rightarrow> int option) \<Rightarrow> string option \<Rightarrow> int" where
  \<comment> \<open>\<^verbatim>\<open>_normalize_limit\<close>; \<open>int_of\<close> is the built-in \<^verbatim>\<open>int\<close>, \<open>None\<close> when it raises
      \<^verbatim>\<open>TypeError\<close> or \<^verbatim>\<open>ValueError\<close>; an absent value is \<open>None\<close>\<close>
  "normalize_limit int_of value =
     (case int_of value of
        None \<Rightarrow> 50
      | Some n \<Rightarrow> max 1 (min 250 n))"

definition normalize_sort :: "string \<Rightarrow> string" where
  "normalize_sort value = (if value \<in> fst ` set SORT_OPTIONS then value else ''RANKING'')"

definition normalize_direction :: "string \<Rightarrow> string" where
  "normalize_direction value = (if value \<in> {''asc'', ''desc''} then value else ''desc'')"

definition normalized :: "ChartFilters \<Rightarrow> bool" where
  \<comment> \<open>the filters the three normalisers can produce\<close>
  "normalized f \<longleftrightarrow>
     1 \<le> limit f \<and> limit f \<le> 250 \<and> sort' f \<in> fst ` set SORT_OPTIONS
     \<and> direction f \<in> {''asc'', ''desc''}"

section \<open>The chart URL\<close>

definition build_chart_url :: "ChartFilters \<Rightarrow> string" where
  "build_chart_url filters =
     (if sort' filters = ''RANKING'' then DEFAULT_CHART_URL
      else (case map_of SORT_PARAM_VALUES (sort' filters) of
              None \<Rightarrow> DEFAULT_CHART_URL
            | Some sort_value \<Rightarrow>
                if sort_value = [] then DEFAULT_CHART_URL
                else DEFAULT_CHART_URL @ ''&sort='' @ sort_value @ ''%2C'' @ direction filters))"

section \<open>Regular expressions of the program\<close>

text \<open>
  Each pattern of the source becomes a matcher anchored at the start of its argument, a
  search for the leftmost match (\<^verbatim>\<open>re.search\<close>), and the list of all non-overlapping
  matches from left to right (\<^verbatim>\<open>re.findall\<close>). A matcher returns the captured groups and
  the text after the match.
\<close>

fun strip_prefix :: "string \<Rightarrow> string \<Rightarrow> string option" where
  "strip_prefix [] s = Some s"
| "strip_prefix (p # ps) [] = None"
| "strip_prefix (p # ps) (c # cs) = (if p = c then strip_prefix ps cs else None)"

definition lower :: "char \<Rightarrow> char" where
  "lower c =
     (case map_of (zip ''ABCDEFGHIJKLMNOPQRSTUVWXYZ'' ''abcdefghijklmnopqrstuvwxyz'') c of
        None \<Rightarrow> c
      | Some l \<Rightarrow> l)"

fun strip_prefix_ci :: "string \<Rightarrow> string \<Rightarrow> string option" where
  \<comment> \<open>a literal under \<^verbatim>\<open>re.IGNORECASE\<close>\<close>
  "strip_prefix_ci [] s = Some s"
| "strip_prefix_ci (p # ps) [] = None"
| "strip_prefix_ci (p # ps) (c # cs) =
     (if lower p = lower c then strip_prefix_ci ps cs else None)"

fun contains_ci :: "string \<Rightarrow> string \<Rightarrow> bool" where
  "contains_ci p [] = (p = [])"
| "contains_ci p (c # cs) = (strip_prefix_ci p (c # cs) \<noteq> None \<or> contains_ci p cs)"

subsection \<open>The rank anchor \<^verbatim>\<open>/title/(tt\d+)/\?ref_=chttp_t_(\d+)\<close>\<close>

definition match_rank :: "string \<Rightarrow> (string \<times> string \<times> string) option" where
  \<comment> \<open>both \<^verbatim>\<open>\d+\<close> are greedy and are followed by a non-digit or the end, so each takes
      the whole run of digits\<close>
  "match_rank s =
     (case strip_prefix ''/title/tt'' s of
        None \<Rightarrow> None
      | Some s1 \<Rightarrow>
          if takeWhile is_digit s1 = [] then None
          else (case strip_prefix ''/?ref_=chttp_t_'' (dropWhile is_digit s1) of
                  None \<Rightarrow> None
                | Some s2 \<Rightarrow>
                    if takeWhile is_digit s2 = [] then None
                    else Some (''tt'' @ takeWhile is_digit s1, takeWhile is_digit s2,
                               dropWhile is_digit s2)))"

fun search_rank :: "string \<Rightarrow> (string \<times> string \<times> string) option" where
  "search_rank [] = None"
| "search_rank (c # cs) =
     (case match_rank (c # cs) of
        None \<Rightarrow> search_rank cs
      | Some m \<Rightarrow> Some m)"

lemma strip_prefix_length: "strip_prefix p s = Some r \<Longrightarrow> length s = length p + length r"
  by (induction p s rule: strip_prefix.induct) (auto split: if_splits)

lemma strip_prefix_ci_length:
  "strip_prefix_ci p s = Some r \<Longrightarrow> length s = length p + length r"
  by (induction p s rule: strip_prefix_ci.induct) (auto split: if_splits)

lemma length_dropWhile_less: "takeWhile P xs \<noteq> [] \<Longrightarrow> length (dropWhile P xs) < length xs"
  by (cases xs) (auto simp: less_Suc_eq_le length_dropWhile_le split: if_splits)

lemma match_rank_shorter:
  assumes "match_rank s = Some (t, r, rest)"
  shows "length rest < length s"
proof -
  from assms obtain s1 s2 where
    s1: "strip_prefix ''/title/tt'' s = Some s1" and
    s2: "strip_prefix ''/?ref_=chttp_t_'' (dropWhile is_digit s1) = Some s2" and
    ne: "takeWhile is_digit s2 \<noteq> []" and
    rest: "rest = dropWhile is_digit s2"
    by (auto simp: match_rank_def split: option.splits if_splits)
  have "length rest < length s2"
    unfolding rest using ne by (rule length_dropWhile_less)
  also have "length s2 \<le> length (dropWhile is_digit s1)"
    using strip_prefix_length [OF s2] by simp
  also have "\<dots> \<le> length s1"
    by (rule length_dropWhile_le)
  also have "\<dots> \<le> length s"
    using strip_prefix_length [OF s1] by simp
  finally show ?thesis .
qed

lemma search_rank_shorter: "search_rank s = Some (t, r, rest) \<Longrightarrow> length rest < length s"
proof (induction s)
  case Nil
  then show ?case by simp
next
  case (Cons c cs)
  show ?case
  proof (cases "match_rank (c # cs)")
    case None
    with Cons show ?thesis by fastforce
  next
    case (Some m)
    with Cons.prems have "match_rank (c # cs) = Some (t, r, rest)" by simp
    then show ?thesis by (rule match_rank_shorter)
  qed
qed

function findall_rank :: "string \<Rightarrow> (string \<times> string) list" where
  "findall_rank s =
     (case search_rank s of
        None \<Rightarrow> []
      | Some (tconst, rank, rest) \<Rightarrow> (tconst, rank) # findall_rank rest)"
  by pat_completeness auto
termination
  by (relation "measure length") (auto dest: search_rank_shorter)

declare findall_rank.simps [simp del]

subsection \<open>The identifier in a url, \<^verbatim>\<open>/title/(tt\d+)/\<close>\<close>

definition match_tconst :: "string \<Rightarrow> string option" where
  "match_tconst s =
     (case strip_prefix ''/title/tt'' s of
        None \<Rightarrow> None
      | Some s1 \<Rightarrow>
          if takeWhile is_digit s1 = [] then None
          else (case strip_prefix ''/'' (dropWhile is_digit s1) of
                  None \<Rightarrow> None
                | Some s2 \<Rightarrow> Some (''tt'' @ takeWhile is_digit s1)))"

fun search_tconst :: "string \<Rightarrow> string option" where
  "search_tconst [] = None"
| "search_tconst (c # cs) =
     (case match_tconst (c # cs) of
        None \<Rightarrow> search_tconst cs
      | Some t \<Rightarrow> Some t)"

subsection \<open>The script block
  \<^verbatim>\<open><script[^>]*type="application/ld\+json"[^>]*>(.*?)</script>\<close>, with DOTALL and IGNORECASE\<close>

text \<open>
  Neither \<^verbatim>\<open>[^>]*\<close> can cross a \<^verbatim>\<open>>\<close> and the type attribute contains none, so
  the \<^verbatim>\<open>>\<close> of the pattern is the first one after \<^verbatim>\<open><script\<close>, and the attribute has to
  occur before it; the lazy group ends at the first closing tag after that \<^verbatim>\<open>>\<close>.
\<close>

fun until_close :: "string \<Rightarrow> (string \<times> string) option" where
  \<comment> \<open>\<^verbatim>\<open>(.*?)</script>\<close>: the text before the first closing tag, and the text after the tag\<close>
  "until_close [] = None"
| "until_close (c # cs) =
     (case strip_prefix_ci ''</script>'' (c # cs) of
        Some rest \<Rightarrow> Some ([], rest)
      | None \<Rightarrow> map_option (\<lambda>(body, rest). (c # body, rest)) (until_close cs))"

definition match_script :: "string \<Rightarrow> (string \<times> string) option" where
  "match_script s =
     (case strip_prefix_ci ''<script'' s of
        None \<Rightarrow> None
      | Some s1 \<Rightarrow>
          (case dropWhile (\<lambda>c. c \<noteq> CHR ''>'') s1 of
             [] \<Rightarrow> None
           | gt # s2 \<Rightarrow>
               if contains_ci ''type=\"application/ld+json\"'' (takeWhile (\<lambda>c. c \<noteq> CHR ''>'') s1)
               then until_close s2
               else None))"

fun search_script :: "string \<Rightarrow> (string \<times> string) option" where
  "search_script [] = None"
| "search_script (c # cs) =
     (case match_script (c # cs) of
        None \<Rightarrow> search_script cs
      | Some m \<Rightarrow> Some m)"

lemma until_close_shorter: "until_close s = Some (body, rest) \<Longrightarrow> length rest < length s"
proof (induction s arbitrary: body)
  case Nil
  then show ?case by simp
next
  case (Cons c cs)
  show ?case
  proof (cases "strip_prefix_ci ''</script>'' (c # cs)")
    case (Some r)
    with Cons.prems have "r = rest" by simp
    with strip_prefix_ci_length [OF Some] show ?thesis by simp
  next
    case None
    with Cons.prems obtain b where "until_close cs = Some (b, rest)"
      by auto
    from Cons.IH [OF this] show ?thesis by simp
  qed
qed

lemma match_script_shorter:
  assumes "match_script s = Some (body, rest)"
  shows "length rest < length s"
proof -
  from assms obtain s1 gt s2 where
    s1: "strip_prefix_ci ''<script'' s = Some s1" and
    s2: "dropWhile (\<lambda>c. c \<noteq> CHR ''>'') s1 = gt # s2" and
    u: "until_close s2 = Some (body, rest)"
    by (auto simp: match_script_def split: option.splits list.splits if_splits)
  have "length rest < length s2"
    using u by (rule until_close_shorter)
  also have "length s2 \<le> length s1"
    using length_dropWhile_le [of "\<lambda>c. c \<noteq> CHR ''>''" s1] s2 by simp
  also have "\<dots> \<le> length s"
    using strip_prefix_ci_length [OF s1] by simp
  finally show ?thesis .
qed

lemma search_script_shorter: "search_script s = Some (body, rest) \<Longrightarrow> length rest < length s"
proof (induction s)
  case Nil
  then show ?case by simp
next
  case (Cons c cs)
  show ?case
  proof (cases "match_script (c # cs)")
    case None
    with Cons show ?thesis by fastforce
  next
    case (Some m)
    with Cons.prems have "match_script (c # cs) = Some (body, rest)" by simp
    then show ?thesis by (rule match_script_shorter)
  qed
qed

function findall_script :: "string \<Rightarrow> string list" where
  "findall_script s =
     (case search_script s of
        None \<Rightarrow> []
      | Some (body, rest) \<Rightarrow> body # findall_script rest)"
  by pat_completeness auto
termination
  by (relation "measure length") (auto dest: search_script_shorter)

declare findall_script.simps [simp del]

section \<open>Parsed JSON and the canonical records\<close>

text \<open>
  \<^verbatim>\<open>json.loads\<close> is a parameter of the model, a function from the text to a
  \<open>loads_result\<close>: the parsed value, or one of the exceptions it raises on a text, which
  are \<^verbatim>\<open>JSONDecodeError\<close> on a text that is not JSON, \<^verbatim>\<open>RecursionError\<close> on a text
  nested too deeply and \<^verbatim>\<open>ValueError\<close> on an integer literal beyond the digit limit.
  The values it returns: \<open>JNone\<close> is Python's \<^verbatim>\<open>None\<close> (JSON null), an
  object is a dictionary, kept as the list of its entries, and a lookup takes the entry
  of the first occurrence of the key (in a dictionary a key occurs once). A float is
  carried by its literal; the program never inspects one.
\<close>

datatype json =
    JNone
  | JBool bool
  | JInt int
  | JFloat string
  | JStr string
  | JList "json list"
  | JDict "(string \<times> json) list"

datatype loads_result =
    Loaded json
  | Raises_JSONDecodeError
  | Raises_RecursionError
  | Raises_ValueError

definition dict_get :: "(string \<times> json) list \<Rightarrow> string \<Rightarrow> json" where
  \<comment> \<open>\<^verbatim>\<open>d.get(key)\<close>: \<^verbatim>\<open>None\<close> when the key is missing\<close>
  "dict_get d key = (case map_of d key of None \<Rightarrow> JNone | Some v \<Rightarrow> v)"

definition dict_get_default :: "(string \<times> json) list \<Rightarrow> string \<Rightarrow> json \<Rightarrow> json" where
  \<comment> \<open>\<^verbatim>\<open>d.get(key, default)\<close>\<close>
  "dict_get_default d key dflt = (case map_of d key of None \<Rightarrow> dflt | Some v \<Rightarrow> v)"

fun py_iter :: "json \<Rightarrow> error + json list" where
  \<comment> \<open>the elements a \<^verbatim>\<open>for\<close> loop visits: a list gives its elements, a string its
      characters, a dictionary its keys; anything else is not iterable\<close>
  "py_iter (JList xs) = Inr xs"
| "py_iter (JStr s) = Inr (map (\<lambda>c. JStr [c]) s)"
| "py_iter (JDict d) = Inr (map (\<lambda>kv. JStr (fst kv)) d)"
| "py_iter v = Inl TypeError"

record MovieRecord =
  rank :: int
  url :: json
  name :: json
  alternateName :: json
  description :: json
  image' :: json
  ratingValue :: json
  ratingCount :: json
  contentRating :: json
  genre :: json
  duration :: json

section \<open>The rank index\<close>

type_synonym rank_index = "string \<rightharpoonup> int"

fun rank_loop :: "(string \<times> string) list \<Rightarrow> rank_index \<Rightarrow> error + rank_index" where
  \<comment> \<open>the loop of \<^verbatim>\<open>parse_top250_from_html\<close> over the matches of the rank anchor;
      \<^verbatim>\<open>int(rank)\<close> is evaluated only for an identifier that is not yet in the index\<close>
  "rank_loop [] rank_by_tconst = Inr rank_by_tconst"
| "rank_loop ((tconst, rnk) # ms) rank_by_tconst =
     (if rank_by_tconst tconst = None
      then (case int_of_digits rnk of
              Inl e \<Rightarrow> Inl e
            | Inr n \<Rightarrow> rank_loop ms (rank_by_tconst(tconst \<mapsto> n)))
      else rank_loop ms rank_by_tconst)"

definition rank_by_tconst_of :: "string \<Rightarrow> error + rank_index" where
  "rank_by_tconst_of html_text = rank_loop (findall_rank html_text) Map.empty"

fun spider_rank_loop :: "string list \<Rightarrow> rank_index \<Rightarrow> error + rank_index" where
  \<comment> \<open>the loop of \<^verbatim>\<open>ImdbSpider.parse\<close> over the hrefs of the title links\<close>
  "spider_rank_loop [] rank_by_tconst = Inr rank_by_tconst"
| "spider_rank_loop (href # hrefs) rank_by_tconst =
     (case search_rank href of
        None \<Rightarrow> spider_rank_loop hrefs rank_by_tconst
      | Some (tconst, rnk, rest) \<Rightarrow>
          (case int_of_digits rnk of
             Inl e \<Rightarrow> Inl e
           | Inr n \<Rightarrow> spider_rank_loop hrefs (rank_by_tconst(tconst \<mapsto> n))))"

section \<open>Selecting the item list\<close>

definition is_item_list :: "json \<Rightarrow> bool" where
  \<comment> \<open>\<^verbatim>\<open>isinstance(candidate, dict) and candidate.get("@type") == "ItemList"
      and "itemListElement" in candidate\<close>\<close>
  "is_item_list candidate =
     (case candidate of
        JDict d \<Rightarrow> dict_get d ''@type'' = JStr ''ItemList'' \<and> ''itemListElement'' \<in> fst ` set d
      | _ \<Rightarrow> False)"

fun select_item_list ::
  "(string \<Rightarrow> loads_result) \<Rightarrow> string list \<Rightarrow> error + json option" where
  \<comment> \<open>the loop over \<^verbatim>\<open>scripts\<close> in \<^verbatim>\<open>parse_top250_from_html\<close>; \<open>loads\<close> is
      \<^verbatim>\<open>json.loads\<close>. The \<^verbatim>\<open>except\<close> clause names \<^verbatim>\<open>json.JSONDecodeError\<close> only, so
      the other exceptions leave the loop and the function\<close>
  "select_item_list loads [] = Inr None"
| "select_item_list loads (raw_json # scripts) =
     (case loads (py_strip raw_json) of
        Raises_JSONDecodeError \<Rightarrow> select_item_list loads scripts
      | Raises_RecursionError \<Rightarrow> Inl RecursionError
      | Raises_ValueError \<Rightarrow> Inl ValueError
      | Loaded candidate \<Rightarrow>
          if is_item_list candidate then Inr (Some candidate)
          else select_item_list loads scripts)"

fun spider_select_item_list ::
  "(string \<Rightarrow> loads_result) \<Rightarrow> string list \<Rightarrow> error + json option" where
  \<comment> \<open>the loop over \<^verbatim>\<open>ld_json_texts\<close> in \<^verbatim>\<open>ImdbSpider.parse\<close>\<close>
  "spider_select_item_list loads [] = Inr None"
| "spider_select_item_list loads (txt # ld_json_texts) =
     (case loads txt of
        Raises_JSONDecodeError \<Rightarrow> spider_select_item_list loads ld_json_texts
      | Raises_RecursionError \<Rightarrow> Inl RecursionError
      | Raises_ValueError \<Rightarrow> Inl ValueError
      | Loaded candidate \<Rightarrow>
          if is_item_list candidate then Inr (Some candidate)
          else spider_select_item_list loads ld_json_texts)"

section \<open>Merging the two sources\<close>

definition tconst_of :: "json \<Rightarrow> string option" where
  \<comment> \<open>\<^verbatim>\<open>re.search(r"/title/(tt\d+)/", url)\<close> when \<open>url\<close> is a string, its group 1\<close>
  "tconst_of u = (case u of JStr s \<Rightarrow> search_tconst s | _ \<Rightarrow> None)"

definition lookup_rank :: "rank_index \<Rightarrow> string option \<Rightarrow> int option" where
  \<comment> \<open>\<^verbatim>\<open>rank_by_tconst.get(tconst) if tconst else None\<close>\<close>
  "lookup_rank rank_by_tconst tconst =
     (case tconst of
        None \<Rightarrow> None
      | Some t \<Rightarrow> if t \<noteq> [] then rank_by_tconst t else None)"

definition make_record :: "rank_index \<Rightarrow> int \<Rightarrow> (string \<times> json) list \<Rightarrow> MovieRecord" where
  "make_record rank_by_tconst i item =
     (let aggregate = (case dict_get item ''aggregateRating'' of JDict a \<Rightarrow> a | _ \<Rightarrow> []);
          u = dict_get item ''url'';
          r = lookup_rank rank_by_tconst (tconst_of u)
      in \<lparr>rank = (case r of Some v \<Rightarrow> v | None \<Rightarrow> i),
          url = u,
          name = dict_get item ''name'',
          alternateName = dict_get item ''alternateName'',
          description = dict_get item ''description'',
          image' = dict_get item ''image'',
          ratingValue = dict_get aggregate ''ratingValue'',
          ratingCount = dict_get aggregate ''ratingCount'',
          contentRating = dict_get item ''contentRating'',
          genre = dict_get item ''genre'',
          duration = dict_get item ''duration''\<rparr>)"

fun merge_loop :: "rank_index \<Rightarrow> int \<Rightarrow> json list \<Rightarrow> MovieRecord list" where
  \<comment> \<open>the loop over \<^verbatim>\<open>enumerate(..., start=1)\<close>; \<open>i\<close> is the position of the head\<close>
  "merge_loop rank_by_tconst i [] = []"
| "merge_loop rank_by_tconst i (element # elements) =
     (case element of
        JDict e \<Rightarrow>
          (case dict_get e ''item'' of
             JDict item \<Rightarrow>
               make_record rank_by_tconst i item # merge_loop rank_by_tconst (i + 1) elements
           | _ \<Rightarrow> merge_loop rank_by_tconst (i + 1) elements)
      | _ \<Rightarrow> merge_loop rank_by_tconst (i + 1) elements)"

definition merge_items :: "rank_index \<Rightarrow> json \<Rightarrow> error + MovieRecord list" where
  \<comment> \<open>lines 132 to 163: \<^verbatim>\<open>enumerate\<close> raises \<^verbatim>\<open>TypeError\<close> on a value that is not iterable\<close>
  "merge_items rank_by_tconst data =
     (case data of
        JDict d \<Rightarrow>
          (case py_iter (dict_get_default d ''itemListElement'' (JList [])) of
             Inl e \<Rightarrow> Inl e
           | Inr elements \<Rightarrow> Inr (merge_loop rank_by_tconst 1 elements))
      | _ \<Rightarrow> Inl AttributeError)"

definition parse_top250_from_html ::
  "(string \<Rightarrow> loads_result) \<Rightarrow> string \<Rightarrow> error + MovieRecord list" where
  \<comment> \<open>the rank index is built first, then the item list is selected, then the two are
      merged; an exception raised at one step ends the function there\<close>
  "parse_top250_from_html loads html_text =
     (case rank_by_tconst_of html_text of
        Inl e \<Rightarrow> Inl e
      | Inr rank_by_tconst \<Rightarrow>
          (case select_item_list loads (findall_script html_text) of
             Inl e \<Rightarrow> Inl e
           | Inr None \<Rightarrow> Inr []
           | Inr (Some data) \<Rightarrow> merge_items rank_by_tconst data))"

definition spider_parse ::
  "(string \<Rightarrow> loads_result) \<Rightarrow> string list \<Rightarrow> string list \<Rightarrow> error + MovieRecord list" where
  \<comment> \<open>\<^verbatim>\<open>ImdbSpider.parse\<close> on the hrefs and the script texts that the two CSS
      selections of the response give; the result is the list of the yielded records\<close>
  "spider_parse loads hrefs ld_json_texts =
     (case spider_rank_loop hrefs Map.empty of
        Inl e \<Rightarrow> Inl e
      | Inr rank_by_tconst \<Rightarrow>
          (case spider_select_item_list loads ld_json_texts of
             Inl e \<Rightarrow> Inl e
           | Inr None \<Rightarrow> Inr []
           | Inr (Some data) \<Rightarrow> merge_items rank_by_tconst data))"

section \<open>Fetching the page and assembling the result\<close>

text \<open>
  \<^verbatim>\<open>requests.get\<close> is the program's only contact with the network. It is a parameter of
  the model: given the URL, the headers and the state of the world it returns a response
  or raises, and leaves a new state of the world. The model also returns the list of the
  requests it has issued.
\<close>

record response =
  status_code :: int
  text' :: string

type_synonym headers = "(string \<times> string) list"

type_synonym 'w transport = "string \<Rightarrow> headers \<Rightarrow> 'w \<Rightarrow> (error + response) \<times> 'w"

fun dict_set :: "string \<Rightarrow> string \<Rightarrow> headers \<Rightarrow> headers" where
  \<comment> \<open>\<^verbatim>\<open>d[key] = v\<close>\<close>
  "dict_set key v [] = [(key, v)]"
| "dict_set key v ((k, x) # d) = (if k = key then (k, v) # d else (k, x) # dict_set key v d)"

definition request_headers :: headers where
  "request_headers =
     [(''User-Agent'', ''Mozilla/5.0 (Macintosh; Intel Mac OS X 10_15_7) AppleWebKit/537.36 (KHTML, like Gecko) Chrome/122.0.0.0 Safari/537.36''),
      (''Accept'', ''text/html,application/xhtml+xml,application/xml;q=0.9,*/*;q=0.8''),
      (''Accept-Language'', ''es-ES,es;q=0.9,en;q=0.8''),
      (''Cache-Control'', ''no-cache''),
      (''Pragma'', ''no-cache'')]"

definition retry_headers :: headers where
  "retry_headers = dict_set ''Accept-Language'' ''en-US,en;q=0.9'' request_headers"

definition fetch_page ::
  "'w transport \<Rightarrow> string \<Rightarrow> 'w \<Rightarrow> (error + response) \<times> (string \<times> headers) list \<times> 'w" where
  \<comment> \<open>lines 169 to 180 of \<^verbatim>\<open>fetch_chart\<close>: the first request and the retry\<close>
  "fetch_page get u w =
     (case get u request_headers w of
        (Inl e, w1) \<Rightarrow> (Inl e, [(u, request_headers)], w1)
      | (Inr resp, w1) \<Rightarrow>
          if status_code resp = 202 \<or> text' resp = [] \<or> length (text' resp) < 10000
          then (case get u retry_headers w1 of
                  (r2, w2) \<Rightarrow> (r2, [(u, request_headers), (u, retry_headers)], w2))
          else (Inr resp, [(u, request_headers)], w1))"

definition raise_for_status :: "response \<Rightarrow> error + unit" where
  \<comment> \<open>\<^verbatim>\<open>requests.Response.raise_for_status\<close>: raises \<^verbatim>\<open>HTTPError\<close> for a client error
      (4xx) or a server error (5xx) and returns for every other status\<close>
  "raise_for_status resp =
     (if 400 \<le> status_code resp \<and> status_code resp < 600
      then Inl (HTTPError (status_code resp))
      else Inr ())"

record Diagnostics =
  http_status :: int
  html_length :: int
  ldjson_blocks :: int

record FetchResult =
  url' :: string
  filters :: ChartFilters
  diagnostics :: Diagnostics
  count :: int
  movies :: "MovieRecord list"

definition assemble ::
  "(string \<Rightarrow> loads_result) \<Rightarrow> string \<Rightarrow> ChartFilters \<Rightarrow> response \<Rightarrow> error + FetchResult" where
  \<comment> \<open>lines 184 to 206 of \<^verbatim>\<open>fetch_chart\<close>\<close>
  "assemble loads u fs resp =
     (case parse_top250_from_html loads (text' resp) of
        Inl e \<Rightarrow> Inl e
      | Inr ms \<Rightarrow>
          Inr \<lparr>url' = u,
               filters = fs,
               diagnostics =
                 \<lparr>http_status = status_code resp,
                  html_length = (if text' resp \<noteq> [] then int (length (text' resp)) else 0),
                  ldjson_blocks = int (length (findall_script (text' resp)))\<rparr>,
               count = min (limit fs) (int (length ms)),
               movies = py_slice_to (limit fs) ms\<rparr>)"

definition fetch_chart ::
  "(string \<Rightarrow> loads_result) \<Rightarrow> 'w transport \<Rightarrow> ChartFilters \<Rightarrow> 'w
     \<Rightarrow> (error + FetchResult) \<times> (string \<times> headers) list \<times> 'w" where
  "fetch_chart loads get fs w =
     (let u = build_chart_url fs
      in case fetch_page get u w of
           (Inl e, sent, w') \<Rightarrow> (Inl e, sent, w')
         | (Inr resp, sent, w') \<Rightarrow>
             (case raise_for_status resp of
                Inl e \<Rightarrow> (Inl e, sent, w')
              | Inr _ \<Rightarrow> (assemble loads u fs resp, sent, w')))"

section \<open>The design stated as functions\<close>

text \<open>
  The following definitions restate the design of the merger and of the structured-data
  extractor in its own words; the lemmas below compare the program with them.
\<close>

fun enumerate_from :: "int \<Rightarrow> 'a list \<Rightarrow> (int \<times> 'a) list" where
  \<comment> \<open>the elements of a list with their positions, counted from \<open>i\<close>\<close>
  "enumerate_from i [] = []"
| "enumerate_from i (x # xs) = (i, x) # enumerate_from (i + 1) xs"

definition valid_item :: "json \<Rightarrow> (string \<times> json) list option" where
  \<comment> \<open>a list element is valid when it is an object whose "item" field is an object\<close>
  "valid_item element =
     (case element of
        JDict e \<Rightarrow> (case dict_get e ''item'' of JDict item \<Rightarrow> Some item | _ \<Rightarrow> None)
      | _ \<Rightarrow> None)"

definition valid_items :: "json list \<Rightarrow> (int \<times> (string \<times> json) list) list" where
  \<comment> \<open>the valid items in list order, each with its 1-based position in the whole list\<close>
  "valid_items elements =
     List.map_filter (\<lambda>(i, element). map_option (Pair i) (valid_item element))
       (enumerate_from 1 elements)"

definition resolved_rank :: "rank_index \<Rightarrow> int \<Rightarrow> (string \<times> json) list \<Rightarrow> int" where
  \<comment> \<open>the rank index entry of the identifier in the item's url, the position \<open>i\<close> when
      there is no identifier or no entry\<close>
  "resolved_rank index i item =
     (case tconst_of (dict_get item ''url'') of
        None \<Rightarrow> i
      | Some t \<Rightarrow> (case index t of None \<Rightarrow> i | Some r \<Rightarrow> r))"

definition merger_spec :: "rank_index \<Rightarrow> json list \<Rightarrow> MovieRecord list" where
  \<comment> \<open>one record for each valid item, in list order, with the resolved rank\<close>
  "merger_spec index elements =
     map (\<lambda>(i, item). (make_record index i item)\<lparr>rank := resolved_rank index i item\<rparr>)
       (valid_items elements)"

fun item_list_object :: "json \<Rightarrow> bool" where
  \<comment> \<open>an object whose type marker is the string "ItemList" and that has a list-elements
      field\<close>
  "item_list_object (JDict d) =
     (map_of d ''@type'' = Some (JStr ''ItemList'') \<and> map_of d ''itemListElement'' \<noteq> None)"
| "item_list_object v = False"

definition passed_over :: "(string \<Rightarrow> loads_result) \<Rightarrow> string \<Rightarrow> bool" where
  \<comment> \<open>a block that is not the item list and does no harm: it is not JSON, or it parses
      to a value that is not an item list object\<close>
  "passed_over parse b =
     (case parse b of
        Raises_JSONDecodeError \<Rightarrow> True
      | Loaded c \<Rightarrow> \<not> item_list_object c
      | Raises_RecursionError \<Rightarrow> False
      | Raises_ValueError \<Rightarrow> False)"

section \<open>Sample pages and transports\<close>

text \<open>
  \<open>replay\<close> is a transport that answers the \<open>n\<close>-th request with the \<open>n\<close>-th outcome of a
  list; the state of the world is the number of requests made so far. Each sample
  \<open>loads\<close> gives what \<^verbatim>\<open>json.loads\<close> does on the JSON texts of its page, and
  \<^verbatim>\<open>JSONDecodeError\<close> on any other text.
\<close>

definition replay :: "(error + response) list \<Rightarrow> nat transport" where
  "replay outcomes u h n =
     ((if n < length outcomes then outcomes ! n else Inl TransportError), n + 1)"

definition no_json :: "string \<Rightarrow> loads_result" where
  "no_json s = Raises_JSONDecodeError"

definition default_filters :: ChartFilters where
  \<comment> \<open>the filters of the index route\<close>
  "default_filters = \<lparr>limit = 50, sort' = ''RANKING'', direction = ''desc''\<rparr>"

definition two_anchor_hrefs :: "string list" where
  "two_anchor_hrefs =
     [''/title/tt0111161/?ref_=chttp_t_1'', ''/title/tt0111161/?ref_=chttp_t_7'']"

definition two_anchor_page :: string where
  "two_anchor_page =
     ''<a class=\"ipc-title-link-wrapper\" href=\"/title/tt0111161/?ref_=chttp_t_1\">a</a>'' @
     ''<a class=\"ipc-title-link-wrapper\" href=\"/title/tt0111161/?ref_=chttp_t_7\">b</a>''"

definition zero_rank_json :: string where
  "zero_rank_json =
     ''{\"@type\":\"ItemList\",\"itemListElement\":[{\"item\":{\"url\":\"/title/tt0111161/\"}}]}''"

definition zero_rank_dict :: "(string \<times> json) list" where
  "zero_rank_dict =
     [(''@type'', JStr ''ItemList''),
      (''itemListElement'',
         JList [JDict [(''item'', JDict [(''url'', JStr ''/title/tt0111161/'')])]])]"

definition zero_rank_page :: string where
  "zero_rank_page =
     ''<a href=\"/title/tt0111161/?ref_=chttp_t_0\">x</a>'' @
     ''<script type=\"application/ld+json\">'' @ zero_rank_json @ ''</script>''"

definition zero_rank_loads :: "string \<Rightarrow> loads_result" where
  "zero_rank_loads s =
     (if s = zero_rank_json then Loaded (JDict zero_rank_dict) else Raises_JSONDecodeError)"

definition chart_json :: string where
  "chart_json =
     ''{\"@type\":\"ItemList\",\"itemListElement\":[{\"item\":{\"url\":\"/title/tt3/\"}},\"x\",'' @
     ''{\"item\":{\"url\":\"/title/tt1/\"}},{\"item\":{\"url\":\"/title/tt2/\"}},{\"item\":{}}]}''"

definition chart_elements :: "json list" where
  "chart_elements =
     [JDict [(''item'', JDict [(''url'', JStr ''/title/tt3/'')])],
      JStr ''x'',
      JDict [(''item'', JDict [(''url'', JStr ''/title/tt1/'')])],
      JDict [(''item'', JDict [(''url'', JStr ''/title/tt2/'')])],
      JDict [(''item'', JDict [])]]"

definition chart_dict :: "(string \<times> json) list" where
  "chart_dict = [(''@type'', JStr ''ItemList''), (''itemListElement'', JList chart_elements)]"

definition chart_loads :: "string \<Rightarrow> loads_result" where
  "chart_loads s = (if s = chart_json then Loaded (JDict chart_dict) else Raises_JSONDecodeError)"

definition chart_page :: string where
  "chart_page =
     ''<a href=\"/title/tt3/?ref_=chttp_t_3\">c</a><a href=\"/title/tt1/?ref_=chttp_t_1\">a</a>'' @
     ''<a href=\"/title/tt2/?ref_=chttp_t_2\">b</a><a href=\"/title/tt3/?ref_=chttp_t_9\">c</a>'' @
     ''<script type=\"application/ld+json\">not json</script>'' @
     ''<script type=\"application/ld+json\"> '' @ chart_json @ '' </script>''"

definition chart_index :: rank_index where
  "chart_index = [''tt3'' \<mapsto> 3, ''tt1'' \<mapsto> 1, ''tt2'' \<mapsto> 2]"

definition movie_json :: string where
  "movie_json = ''{\"@type\":\"Movie\"}''"

definition movie_loads :: "string \<Rightarrow> loads_result" where
  "movie_loads s =
     (if s = movie_json then Loaded (JDict [(''@type'', JStr ''Movie'')])
      else Raises_JSONDecodeError)"

definition movie_page :: string where
  "movie_page = ''<html><script type=\"application/ld+json\">'' @ movie_json @ ''</script></html>''"

definition null_list_json :: string where
  "null_list_json = ''{\"@type\":\"ItemList\",\"itemListElement\":null}''"

definition null_list_dict :: "(string \<times> json) list" where
  "null_list_dict = [(''@type'', JStr ''ItemList''), (''itemListElement'', JNone)]"

definition null_list_loads :: "string \<Rightarrow> loads_result" where
  "null_list_loads s =
     (if s = null_list_json then Loaded (JDict null_list_dict) else Raises_JSONDecodeError)"

definition null_list_page :: string where
  "null_list_page = ''<script type=\"application/ld+json\">'' @ null_list_json @ ''</script>''"

definition deep_block :: string where
  \<comment> \<open>two thousand opening brackets\<close>
  "deep_block = replicate 2000 (CHR ''['')"

definition bare_type_json :: string where
  "bare_type_json = ''{\"@type\":\"ItemList\"}''"

definition mixed_loads :: "string \<Rightarrow> loads_result" where
  \<comment> \<open>\<^verbatim>\<open>json.loads\<close> on the texts of the sample blocks: the parsed objects on the four
      JSON texts, \<^verbatim>\<open>JSONDecodeError\<close> elsewhere\<close>
  "mixed_loads s =
     (if s = movie_json then Loaded (JDict [(''@type'', JStr ''Movie'')])
      else if s = bare_type_json then Loaded (JDict [(''@type'', JStr ''ItemList'')])
      else if s = chart_json then Loaded (JDict chart_dict)
      else if s = zero_rank_json then Loaded (JDict zero_rank_dict)
      else Raises_JSONDecodeError)"

definition deep_loads :: "string \<Rightarrow> loads_result" where
  \<comment> \<open>as \<open>mixed_loads\<close>, with the \<^verbatim>\<open>RecursionError\<close> that the deep block causes\<close>
  "deep_loads s = (if s = deep_block then Raises_RecursionError else mixed_loads s)"

definition long_rank_page :: string where
  \<comment> \<open>one anchor whose rank has 4301 digits, and no script block\<close>
  "long_rank_page =
     ''<a href=\"/title/tt1/?ref_=chttp_t_'' @ replicate 4301 (CHR ''1'') @ ''\">x</a>''"

section \<open>Properties of the filter normaliser and the URL builder\<close>

text \<open>
  C8. Whatever the raw limit is, and whatever the integer reader does with it, the
  normalised limit lies in 1..250; when the raw value reads as an integer \<open>n\<close> the result is
  \<open>n\<close> clamped into 1..250, and when reading fails or the value is absent the result is 50.
  The function is total: it has a value on every input.
\<close>

theorem normalize_limit_range:
  "1 \<le> normalize_limit int_of value \<and> normalize_limit int_of value \<le> 250
   \<and> (\<forall>n. int_of value = Some n \<longrightarrow>
          normalize_limit int_of value = (if n < 1 then 1 else if 250 < n then 250 else n))
   \<and> (int_of value = None \<longrightarrow> normalize_limit int_of value = 50)"
  by (cases "int_of value") (auto simp: normalize_limit_def)

theorem normalize_limit_range_witness:
  "normalize_limit py_int (Some ''  1_000 '') = 250
   \<and> normalize_limit py_int (Some ''-7'') = 1
   \<and> normalize_limit py_int (Some ''42'') = 42
   \<and> normalize_limit py_int (Some ''4x'') = 50
   \<and> normalize_limit py_int None = 50"
proof -
  have a: "py_int (Some ''  1_000 '') = Some 1000" by code_simp
  have b: "py_int (Some ''-7'') = Some (- 7)" by code_simp
  have c: "py_int (Some ''42'') = Some 42" by code_simp
  have d: "py_int (Some ''4x'') = None" by code_simp
  have e: "py_int None = None" by code_simp
  show ?thesis
    using normalize_limit_range [of py_int "Some ''  1_000 ''"]
      normalize_limit_range [of py_int "Some ''-7''"]
      normalize_limit_range [of py_int "Some ''42''"]
      normalize_limit_range [of py_int "Some ''4x''"]
      normalize_limit_range [of py_int None]
    by (simp add: a b c d e)
qed

text \<open>
  C9. For all filters, normalised or not: the built URL is the fixed default URL when the
  sort key is RANKING, whatever the direction; it is the default URL followed by
  \<^verbatim>\<open>&sort=<param>%2C<direction>\<close> when the sort key has a parameter name in the table; and
  it is the default URL when the sort key has no parameter name.
\<close>

theorem build_chart_url_cases:
  "(sort' f = ''RANKING'' \<longrightarrow> build_chart_url f = DEFAULT_CHART_URL)
    \<and> (\<forall>p. map_of SORT_PARAM_VALUES (sort' f) = Some p \<longrightarrow>
          build_chart_url f = DEFAULT_CHART_URL @ ''&sort='' @ p @ ''%2C'' @ direction f)
    \<and> (map_of SORT_PARAM_VALUES (sort' f) = None \<longrightarrow> build_chart_url f = DEFAULT_CHART_URL)"
proof (intro conjI allI impI)
  show "build_chart_url f = DEFAULT_CHART_URL" if "sort' f = ''RANKING''"
    using that by (simp add: build_chart_url_def)
next
  fix p
  assume p: "map_of SORT_PARAM_VALUES (sort' f) = Some p"
  then have "(sort' f, p) \<in> set SORT_PARAM_VALUES"
    by (rule map_of_SomeD)
  then have "sort' f \<noteq> ''RANKING'' \<and> p \<noteq> []"
    by (auto simp: SORT_PARAM_VALUES_def)
  with p show "build_chart_url f = DEFAULT_CHART_URL @ ''&sort='' @ p @ ''%2C'' @ direction f"
    by (simp add: build_chart_url_def)
next
  show "build_chart_url f = DEFAULT_CHART_URL" if "map_of SORT_PARAM_VALUES (sort' f) = None"
    using that by (simp add: build_chart_url_def)
qed

text \<open>
  The three cases at normalised filters with the sort keys RANKING (in both directions)
  and RUNTIME, and the defensive case at a sort key outside the table.
\<close>

theorem build_chart_url_cases_witness:
  "build_chart_url \<lparr>limit = 50, sort' = ''RANKING'', direction = ''asc''\<rparr> = DEFAULT_CHART_URL
   \<and> build_chart_url \<lparr>limit = 50, sort' = ''RANKING'', direction = ''desc''\<rparr> = DEFAULT_CHART_URL
   \<and> build_chart_url \<lparr>limit = 50, sort' = ''RUNTIME'', direction = ''asc''\<rparr>
       = DEFAULT_CHART_URL @ ''&sort=runtime%2Casc''
   \<and> build_chart_url \<lparr>limit = 50, sort' = ''SHUFFLE'', direction = ''asc''\<rparr> = DEFAULT_CHART_URL"
proof -
  have p: "map_of SORT_PARAM_VALUES ''RUNTIME'' = Some ''runtime''"
    by (simp add: SORT_PARAM_VALUES_def)
  have q: "map_of SORT_PARAM_VALUES ''SHUFFLE'' = None"
    by (simp add: SORT_PARAM_VALUES_def)
  show ?thesis
    using build_chart_url_cases [of "\<lparr>limit = 50, sort' = ''RANKING'', direction = ''asc''\<rparr>"]
      build_chart_url_cases [of "\<lparr>limit = 50, sort' = ''RANKING'', direction = ''desc''\<rparr>"]
      build_chart_url_cases [of "\<lparr>limit = 50, sort' = ''RUNTIME'', direction = ''asc''\<rparr>"]
      build_chart_url_cases [of "\<lparr>limit = 50, sort' = ''SHUFFLE'', direction = ''asc''\<rparr>"]
      p q
    by simp
qed

section \<open>The rank extractor\<close>

lemma rank_loop_keeps:
  "rank_loop ms m = Inr idx \<Longrightarrow> m t = Some v \<Longrightarrow> idx t = Some v"
proof (induction ms arbitrary: m)
  case Nil
  then show ?case by simp
next
  case (Cons p ms)
  obtain t' r' where p: "p = (t', r')" by (cases p)
  show ?case
  proof (cases "m t' = None")
    case False
    with Cons p show ?thesis by simp
  next
    case True
    with Cons.prems p obtain n where n: "int_of_digits r' = Inr n"
      and rest: "rank_loop ms (m(t' \<mapsto> n)) = Inr idx"
      by (auto split: sum.splits)
    from True Cons.prems(2) have "t \<noteq> t'" by auto
    then have "(m(t' \<mapsto> n)) t = Some v"
      using Cons.prems(2) by simp
    with Cons.IH rest show ?thesis by blast
  qed
qed

lemma rank_loop_origin:
  "rank_loop ms m = Inr idx \<Longrightarrow> idx t = Some v \<Longrightarrow>
     m t = Some v \<or> (\<exists>r. (t, r) \<in> set ms \<and> int_of_digits r = Inr v)"
proof (induction ms arbitrary: m)
  case Nil
  then show ?case by simp
next
  case (Cons p ms)
  obtain t' r' where p: "p = (t', r')" by (cases p)
  show ?case
  proof (cases "m t' = None")
    case False
    with Cons.prems p have "rank_loop ms m = Inr idx" by simp
    from Cons.IH [OF this Cons.prems(2)] show ?thesis by auto
  next
    case True
    with Cons.prems p obtain n where n: "int_of_digits r' = Inr n"
      and rest: "rank_loop ms (m(t' \<mapsto> n)) = Inr idx"
      by (auto split: sum.splits)
    from Cons.IH [OF rest Cons.prems(2)] n p show ?thesis
      by (auto split: if_splits)
  qed
qed


text \<open>
  In the Flask parser the first match of an identifier decides its rank: later matches
  of the same identifier leave the entry as it is.
\<close>

lemma first_anchor_wins:
  assumes "findall_rank html_text = pre @ (t, r) # rest" and "t \<notin> fst ` set pre"
    and "rank_by_tconst_of html_text = Inr idx"
  shows "\<exists>v. int_of_digits r = Inr v \<and> idx t = Some v"
proof -
  have gen: "\<exists>v. int_of_digits r = Inr v \<and> idx t = Some v"
    if "rank_loop (pre @ (t, r) # rest) m = Inr idx" and "m t = None" and "t \<notin> fst ` set pre"
    for m
    using that
  proof (induction pre arbitrary: m)
    case Nil
    then obtain n where n: "int_of_digits r = Inr n"
      and l: "rank_loop rest (m(t \<mapsto> n)) = Inr idx"
      by (auto split: sum.splits)
    have "idx t = Some n"
      using l by (rule rank_loop_keeps) simp
    with n show ?case by blast
  next
    case (Cons p pre)
    obtain t' r' where p: "p = (t', r')" by (cases p)
    from Cons.prems(3) p have ne: "t \<noteq> t'" and notin: "t \<notin> fst ` set pre"
      by auto
    show ?case
    proof (cases "m t' = None")
      case False
      with Cons.prems(1) p have "rank_loop (pre @ (t, r) # rest) m = Inr idx" by simp
      from Cons.IH [OF this Cons.prems(2) notin] show ?thesis .
    next
      case True
      with Cons.prems(1) p obtain n where
        l: "rank_loop (pre @ (t, r) # rest) (m(t' \<mapsto> n)) = Inr idx"
        by (auto split: sum.splits)
      have "(m(t' \<mapsto> n)) t = None"
        using Cons.prems(2) ne by simp
      from Cons.IH [OF l this notin] show ?thesis .
    qed
  qed
  show ?thesis
    using assms gen [of Map.empty] by (simp add: rank_by_tconst_of_def)
qed

text \<open>
  In the spider the assignment is unconditional, so the last link of an identifier
  decides its rank.
\<close>

lemma spider_rank_loop_last:
  assumes "search_rank href = Some (t, r, rest)"
    and "spider_rank_loop (hrefs @ [href]) m = Inr idx"
  shows "\<exists>v. int_of_digits r = Inr v \<and> idx t = Some v"
  using assms
  by (induction hrefs m rule: spider_rank_loop.induct) (auto split: option.splits sum.splits)

text \<open>
  C1. When two anchors carry the same identifier with different ranks, the rank index is
  to keep the rank of the first anchor, in the Flask parser and in the spider alike. On
  two title links for \<^verbatim>\<open>tt0111161\<close>, the first with rank 1 and the second with rank 7, the
  Flask parser keeps 1, but the spider ends with 7: its loop overwrites the entry.
\<close>

theorem spider_last_anchor_wins:
  "map_sum id (\<lambda>idx. idx ''tt0111161'') (spider_rank_loop two_anchor_hrefs Map.empty)
     = Inr (Some 7)
   \<and> map_sum id (\<lambda>idx. idx ''tt0111161'') (rank_by_tconst_of two_anchor_page) = Inr (Some 1)"
  by code_simp

section \<open>The ranks of the emitted records\<close>

lemma digit_val_nonneg: "is_digit c \<Longrightarrow> 0 \<le> digit_val c"
  by (auto simp: is_digit_def digit_val_def)

lemma foldl_digits_nonneg:
  "\<forall>c\<in>set s. is_digit c \<Longrightarrow> 0 \<le> n \<Longrightarrow> 0 \<le> foldl (\<lambda>n c. 10 * n + digit_val c) n s"
proof (induction s arbitrary: n)
  case Nil
  then show ?case by simp
next
  case (Cons c s)
  have "0 \<le> 10 * n + digit_val c"
    using Cons.prems digit_val_nonneg [of c] by simp
  with Cons show ?case by simp
qed

lemma int_of_digits_nonneg:
  "\<forall>c\<in>set s. is_digit c \<Longrightarrow> int_of_digits s = Inr v \<Longrightarrow> 0 \<le> v"
  by (auto simp: int_of_digits_def foldl_digits_nonneg split: if_splits)

lemma match_rank_digits:
  "match_rank s = Some (t, r, rest) \<Longrightarrow> \<forall>c\<in>set r. is_digit c"
  by (auto simp: match_rank_def split: option.splits if_splits dest: set_takeWhileD)

lemma search_rank_digits:
  "search_rank s = Some (t, r, rest) \<Longrightarrow> \<forall>c\<in>set r. is_digit c"
  by (induction s) (auto split: option.splits dest: match_rank_digits)

lemma findall_rank_digits:
  "(t, r) \<in> set (findall_rank s) \<Longrightarrow> \<forall>c\<in>set r. is_digit c"
proof (induction s rule: findall_rank.induct)
  case (1 s)
  show ?case
  proof (cases "search_rank s")
    case None
    with "1.prems" show ?thesis by (simp add: findall_rank.simps)
  next
    case (Some m)
    obtain t' r' rest where m: "m = (t', r', rest)" by (cases m)
    from "1.prems" Some m have "(t, r) = (t', r') \<or> (t, r) \<in> set (findall_rank rest)"
      by (simp add: findall_rank.simps [of s])
    then show ?thesis
    proof
      assume "(t, r) = (t', r')"
      with Some m search_rank_digits [of s t' r' rest] show ?thesis by simp
    next
      assume "(t, r) \<in> set (findall_rank rest)"
      with "1.IH" Some m show ?thesis by simp
    qed
  qed
qed

lemma rank_by_tconst_of_nonneg:
  assumes "rank_by_tconst_of html_text = Inr idx" and "idx t = Some v"
  shows "0 \<le> v"
proof -
  from assms have "\<exists>r. (t, r) \<in> set (findall_rank html_text) \<and> int_of_digits r = Inr v"
    using rank_loop_origin [of "findall_rank html_text" Map.empty idx t v]
    by (simp add: rank_by_tconst_of_def)
  then obtain r where "(t, r) \<in> set (findall_rank html_text)" and "int_of_digits r = Inr v"
    by blast
  then show ?thesis
    using findall_rank_digits int_of_digits_nonneg by blast
qed

lemma rank_make_record:
  "rank (make_record index i item) =
     (case lookup_rank index (tconst_of (dict_get item ''url'')) of Some v \<Rightarrow> v | None \<Rightarrow> i)"
  by (simp add: make_record_def Let_def)

lemma merge_loop_Cons:
  "merge_loop index i (element # elements) =
     (case valid_item element of
        None \<Rightarrow> merge_loop index (i + 1) elements
      | Some item \<Rightarrow> make_record index i item # merge_loop index (i + 1) elements)"
  by (simp add: valid_item_def split: json.splits)

lemma merge_loop_rank:
  assumes "m \<in> set (merge_loop index i elements)"
  shows "i \<le> rank m \<or> (\<exists>t. index t = Some (rank m))"
  using assms
proof (induction elements arbitrary: i)
  case Nil
  then show ?case by simp
next
  case (Cons element elements)
  have here: "i \<le> rank (make_record index i item) \<or>
      (\<exists>t. index t = Some (rank (make_record index i item)))" for item
    by (auto simp: rank_make_record lookup_rank_def split: option.splits if_splits)
  from Cons.prems consider
      (head) item where "m = make_record index i item"
    | (tail) "m \<in> set (merge_loop index (i + 1) elements)"
    by (auto simp: merge_loop_Cons simp del: merge_loop.simps split: option.splits)
  then show ?case
  proof cases
    case head
    with here show ?thesis by simp
  next
    case tail
    from Cons.IH [OF tail] show ?thesis by auto
  qed
qed

lemma merge_items_rank:
  assumes "merge_items index data = Inr ms" and "m \<in> set ms"
  shows "1 \<le> rank m \<or> (\<exists>t. index t = Some (rank m))"
  using assms merge_loop_rank [of m index 1]
  by (auto simp: merge_items_def split: json.splits sum.splits)

text \<open>
  C2, as the program has it. Every record that \<^verbatim>\<open>parse_top250_from_html\<close> emits has an
  integer rank (the field is never \<^verbatim>\<open>None\<close>: it is the index entry or else the position).
  The rank is at least 1, except that it is 0 when the record takes its rank from an
  anchor whose rank digits are all zeros; it is never negative.
\<close>

theorem parse_rank_bound:
  assumes "parse_top250_from_html loads html_text = Inr ms" and "m \<in> set ms"
  shows "1 \<le> rank m
    \<or> (rank m = 0 \<and> (\<exists>idx t. rank_by_tconst_of html_text = Inr idx \<and> idx t = Some 0))"
proof -
  from assms obtain idx where idx: "rank_by_tconst_of html_text = Inr idx"
    and "1 \<le> rank m \<or> (\<exists>t. idx t = Some (rank m))"
    by (auto simp: parse_top250_from_html_def split: option.splits sum.splits
          dest: merge_items_rank)
  then show ?thesis
  proof (elim disjE)
    assume "1 \<le> rank m"
    then show ?thesis by simp
  next
    assume "\<exists>t. idx t = Some (rank m)"
    then obtain t where t: "idx t = Some (rank m)" ..
    with idx have "0 \<le> rank m"
      by (rule rank_by_tconst_of_nonneg)
    then have "1 \<le> rank m \<or> rank m = 0"
      by arith
    with t idx show ?thesis by auto
  qed
qed

text \<open>
  On the sample chart page the four records have the ranks 3, 1, 2 and 5: three from the
  anchors (the later anchor with rank 9 for \<^verbatim>\<open>tt3\<close> is ignored) and one by position.
\<close>

theorem parse_rank_bound_witness:
  "map_sum id (map rank) (parse_top250_from_html chart_loads chart_page) = Inr [3, 1, 2, 5]
   \<and> (1 \<le> rank (make_record chart_index 1 [(''url'', JStr ''/title/tt3/'')])
      \<or> rank (make_record chart_index 1 [(''url'', JStr ''/title/tt3/'')]) = 0
        \<and> (\<exists>idx t. rank_by_tconst_of chart_page = Inr idx \<and> idx t = Some 0))"
proof -
  let ?ms = "[make_record chart_index 1 [(''url'', JStr ''/title/tt3/'')],
              make_record chart_index 3 [(''url'', JStr ''/title/tt1/'')],
              make_record chart_index 4 [(''url'', JStr ''/title/tt2/'')],
              make_record chart_index 5 []]"
  have p: "parse_top250_from_html chart_loads chart_page = Inr ?ms"
    by code_simp
  have r: "map_sum id (map rank) (parse_top250_from_html chart_loads chart_page) = Inr [3, 1, 2, 5]"
    by code_simp
  have m: "make_record chart_index 1 [(''url'', JStr ''/title/tt3/'')] \<in> set ?ms"
    by simp
  show ?thesis
    using parse_rank_bound [OF p m] r by simp
qed

text \<open>
  C2 as stated asks for a rank of at least 1 on every markup. A page whose anchor for
  \<^verbatim>\<open>tt0111161\<close> ends in \<^verbatim>\<open>chttp_t_0\<close>, with an item list naming that title, yields one
  record, of rank 0.
\<close>

theorem parse_rank_zero:
  "map_sum id (map rank) (parse_top250_from_html zero_rank_loads zero_rank_page) = Inr [0]"
  by code_simp

section \<open>The merger\<close>

lemma search_tconst_nonempty: "search_tconst s = Some t \<Longrightarrow> t \<noteq> []"
  by (induction s) (auto simp: match_tconst_def split: option.splits if_splits)

lemma rank_make_record_resolved: "rank (make_record index i item) = resolved_rank index i item"
  by (auto simp: rank_make_record resolved_rank_def lookup_rank_def tconst_of_def
        split: option.splits json.splits dest: search_tconst_nonempty)

lemma merge_loop_valid_items:
  "merge_loop index i elements =
     map (\<lambda>(j, item). make_record index j item)
       (List.map_filter (\<lambda>(j, element). map_option (Pair j) (valid_item element))
          (enumerate_from i elements))"
proof (induction elements arbitrary: i)
  case Nil
  show ?case by (simp add: map_filter_simps)
next
  case (Cons element elements)
  show ?case
    by (cases "valid_item element")
      (simp_all add: merge_loop_Cons Cons.IH map_filter_simps del: merge_loop.simps)
qed

lemma length_valid_items_from:
  "length (List.map_filter (\<lambda>(j, element). map_option (Pair j) (valid_item element))
          (enumerate_from i elements))
     = length (filter (\<lambda>element. valid_item element \<noteq> None) elements)"
proof (induction elements arbitrary: i)
  case Nil
  show ?case by (simp add: map_filter_simps)
next
  case (Cons element elements)
  show ?case
    by (cases "valid_item element") (simp_all add: Cons.IH map_filter_simps)
qed

lemma map_fst_enumerate_from:
  "map fst (enumerate_from i xs) = map (\<lambda>k. i + int k) [0 ..< length xs]"
proof (induction xs arbitrary: i)
  case Nil
  show ?case by simp
next
  case (Cons x xs)
  have "map (\<lambda>k. i + int k) [0 ..< Suc (length xs)]
          = i # map (\<lambda>k. i + 1 + int k) [0 ..< length xs]"
    by (simp add: upt_conv_Cons map_Suc_upt [symmetric] del: upt_Suc)
  with Cons.IH [of "i + 1"] show ?case by simp
qed

lemma map_snd_enumerate_from: "map snd (enumerate_from i xs) = xs"
  by (induction xs arbitrary: i) auto

lemma merge_loop_spec: "merge_loop index 1 elements = merger_spec index elements"
  by (simp add: merger_spec_def valid_items_def merge_loop_valid_items
      rank_make_record_resolved [symmetric])

text \<open>
  For an item list whose "itemListElement" value can be iterated, as a list always can,
  the merger returns exactly the records of the design: the elements are taken in list
  order with positions 1, 2, 3, ...; an element that is not an object, or whose "item" is
  not an object, gives no record; every other element gives one record, in list order,
  whose rank is the rank index entry for the identifier found in the item's url, and the
  element's position when there is no identifier or no entry.
\<close>

lemma merge_items_in_list_order:
  assumes "py_iter (dict_get_default d ''itemListElement'' (JList [])) = Inr elements"
  shows "merge_items index (JDict d) = Inr (merger_spec index elements)
    \<and> length (merger_spec index elements)
        = length (filter (\<lambda>element. valid_item element \<noteq> None) elements)
    \<and> map fst (enumerate_from 1 elements) = map (\<lambda>k. 1 + int k) [0 ..< length elements]
    \<and> map snd (enumerate_from 1 elements) = elements"
  using assms
  by (simp add: merge_items_def merge_loop_spec map_fst_enumerate_from map_snd_enumerate_from)
    (simp add: merger_spec_def valid_items_def length_valid_items_from)

lemma merge_items_chart:
  "merge_items chart_index (JDict chart_dict) = Inr (merger_spec chart_index chart_elements)
   \<and> map rank (merger_spec chart_index chart_elements) = [3, 1, 2, 5]
   \<and> map url (merger_spec chart_index chart_elements)
       = [JStr ''/title/tt3/'', JStr ''/title/tt1/'', JStr ''/title/tt2/'', JNone]"
proof -
  have h: "py_iter (dict_get_default chart_dict ''itemListElement'' (JList [])) = Inr chart_elements"
    by code_simp
  have r: "map rank (merger_spec chart_index chart_elements) = [3, 1, 2, 5]"
    by code_simp
  have u: "map url (merger_spec chart_index chart_elements)
       = [JStr ''/title/tt3/'', JStr ''/title/tt1/'', JStr ''/title/tt2/'', JNone]"
    by code_simp
  show ?thesis
    using merge_items_in_list_order [OF h, of chart_index] r u by simp
qed

text \<open>
  C4. For every selected item list the merger is to go through the list elements and
  emit one record for each valid item. The selection asks only that the key
  "itemListElement" is present: the object with \<^verbatim>\<open>null\<close> under that key is selected, and
  on it the merger emits nothing and raises \<^verbatim>\<open>TypeError\<close>, since \<^verbatim>\<open>enumerate\<close> is given
  a value that cannot be iterated.
\<close>

theorem merge_null_list_type_error:
  "select_item_list null_list_loads [null_list_json] = Inr (Some (JDict null_list_dict))
   \<and> merge_items chart_index (JDict null_list_dict) = Inl TypeError"
  by code_simp

section \<open>The structured-data extractor\<close>

text \<open>
  The test of the program is the test of the design: the type marker is read with
  \<^verbatim>\<open>get\<close>, which gives \<^verbatim>\<open>None\<close> for a missing key, and \<^verbatim>\<open>None\<close> is not the string
  "ItemList".
\<close>

lemma is_item_list_iff: "is_item_list c = item_list_object c"
proof (cases c)
  case (JDict d)
  have "dict_get d ''@type'' = JStr ''ItemList'' \<longleftrightarrow> map_of d ''@type'' = Some (JStr ''ItemList'')"
    by (simp add: dict_get_def split: option.splits)
  moreover have "''itemListElement'' \<in> fst ` set d \<longleftrightarrow> map_of d ''itemListElement'' \<noteq> None"
    by (simp add: map_of_eq_None_iff)
  ultimately show ?thesis
    using JDict by (simp add: is_item_list_def)
qed (simp_all add: is_item_list_def)

lemma select_via_spider:
  "select_item_list loads scripts = spider_select_item_list (\<lambda>s. loads (py_strip s)) scripts"
  by (induction scripts) (auto split: loads_result.splits)

lemma spider_select_all_passed:
  "\<forall>b\<in>set blocks. passed_over parse b \<Longrightarrow> spider_select_item_list parse blocks = Inr None"
  by (induction blocks)
     (auto simp: passed_over_def is_item_list_iff split: loads_result.splits)

lemma spider_select_None_iff:
  "spider_select_item_list parse blocks = Inr None \<longleftrightarrow> (\<forall>b\<in>set blocks. passed_over parse b)"
  by (induction blocks)
     (auto simp: passed_over_def is_item_list_iff split: loads_result.splits)

lemma spider_select_first:
  assumes "\<forall>x\<in>set pre. passed_over parse x" and "parse b = Loaded c" and "item_list_object c"
  shows "spider_select_item_list parse (pre @ b # rest) = Inr (Some c)"
  using assms
  by (induction pre)
     (auto simp: passed_over_def is_item_list_iff split: loads_result.splits)

lemma spider_select_raises:
  assumes "\<forall>x\<in>set pre. passed_over parse x"
  shows "parse b = Raises_RecursionError \<Longrightarrow>
           spider_select_item_list parse (pre @ b # rest) = Inl RecursionError"
    and "parse b = Raises_ValueError \<Longrightarrow>
           spider_select_item_list parse (pre @ b # rest) = Inl ValueError"
  using assms
  by (induction pre)
     (auto simp: passed_over_def is_item_list_iff split: loads_result.splits)

lemma spider_select_Some:
  "spider_select_item_list parse blocks = Inr (Some c) \<Longrightarrow> is_item_list c"
  by (induction blocks) (auto split: loads_result.splits if_splits)


text \<open>
  What both selection loops do on every list of blocks, the Flask parser on the stripped
  texts: the blocks are taken in order; a block that raises \<^verbatim>\<open>JSONDecodeError\<close> or
  parses to something else than an item list object is passed over; the first block that
  parses to an item list object is selected, whatever comes after it; nothing is
  selected exactly when every block is passed over; and the first block on which
  \<^verbatim>\<open>json.loads\<close> raises another exception ends the loop with that exception.
\<close>

lemma select_item_list_scan:
  "(select_item_list loads blocks = Inr None
      \<longleftrightarrow> (\<forall>x\<in>set blocks. passed_over (\<lambda>s. loads (py_strip s)) x))
   \<and> (spider_select_item_list loads blocks = Inr None
      \<longleftrightarrow> (\<forall>x\<in>set blocks. passed_over loads x))
   \<and> ((\<forall>x\<in>set pre. passed_over (\<lambda>s. loads (py_strip s)) x) \<longrightarrow>
        (loads (py_strip b) = Loaded c \<and> item_list_object c \<longrightarrow>
           select_item_list loads (pre @ b # rest) = Inr (Some c))
        \<and> (loads (py_strip b) = Raises_RecursionError \<longrightarrow>
           select_item_list loads (pre @ b # rest) = Inl RecursionError)
        \<and> (loads (py_strip b) = Raises_ValueError \<longrightarrow>
           select_item_list loads (pre @ b # rest) = Inl ValueError))
   \<and> ((\<forall>x\<in>set pre. passed_over loads x) \<longrightarrow>
        (loads b = Loaded c \<and> item_list_object c \<longrightarrow>
           spider_select_item_list loads (pre @ b # rest) = Inr (Some c))
        \<and> (loads b = Raises_RecursionError \<longrightarrow>
           spider_select_item_list loads (pre @ b # rest) = Inl RecursionError)
        \<and> (loads b = Raises_ValueError \<longrightarrow>
           spider_select_item_list loads (pre @ b # rest) = Inl ValueError))"
  unfolding select_via_spider
  using spider_select_None_iff spider_select_first spider_select_raises
  by (intro conjI impI) blast+

text \<open>
  On sample blocks: a text that is not JSON, a movie object, an object of type
  "ItemList" without list elements, the item list with white space around it, and a
  second item list. The first item list is selected.
\<close>

lemma select_item_list_sample:
  "select_item_list mixed_loads
     [''not json'', movie_json, bare_type_json, '' '' @ chart_json @ '' '', zero_rank_json]
     = Inr (Some (JDict chart_dict))
   \<and> spider_select_item_list mixed_loads
     [''not json'', movie_json, bare_type_json, chart_json, zero_rank_json]
     = Inr (Some (JDict chart_dict))
   \<and> select_item_list mixed_loads [''not json'', movie_json, bare_type_json] = Inr None"
  by code_simp

lemma dropWhile_replicate_keep: "\<not> P x \<Longrightarrow> dropWhile P (replicate n x) = replicate n x"
  by (cases n) simp_all

text \<open>
  C6. Every block that does not parse as JSON is to be skipped without failing, and the
  first qualifying block selected. The \<^verbatim>\<open>except\<close> clause of both loops names
  \<^verbatim>\<open>json.JSONDecodeError\<close> only. On a block of two thousand opening brackets
  \<^verbatim>\<open>json.loads\<close> raises \<^verbatim>\<open>RecursionError\<close>; with the item list as the next block, both
  loops end with that exception instead of skipping the block and selecting the list.
\<close>

theorem select_deep_block_raises:
  "select_item_list deep_loads [deep_block, chart_json] = Inl RecursionError
   \<and> spider_select_item_list deep_loads [deep_block, chart_json] = Inl RecursionError"
proof -
  have "py_strip deep_block = deep_block"
    by (simp add: py_strip_def deep_block_def dropWhile_replicate_keep is_space_def)
  moreover have "deep_loads deep_block = Raises_RecursionError"
    by (simp add: deep_loads_def)
  ultimately show ?thesis by simp
qed

section \<open>The result assembler\<close>

lemma py_slice_to_take: "0 \<le> n \<Longrightarrow> py_slice_to n xs = take (nat n) xs"
  by (simp add: py_slice_to_def)

text \<open>
  C3. For filters with a limit \<open>L\<close> between 1 and 250 and a parsed record list of length
  \<open>N\<close>, the assembled result has the first \<open>L\<close> records as its movies and
  \<open>min L N\<close> as its count, and the count is the number of its movies.
\<close>

theorem assemble_count:
  assumes "1 \<le> limit fs" and "limit fs \<le> 250"
    and "parse_top250_from_html loads (text' resp) = Inr ms"
  shows "assemble loads u fs resp =
           Inr \<lparr>url' = u, filters = fs,
                diagnostics =
                  \<lparr>http_status = status_code resp,
                   html_length = int (length (text' resp)),
                   ldjson_blocks = int (length (findall_script (text' resp)))\<rparr>,
                count = min (limit fs) (int (length ms)),
                movies = take (nat (limit fs)) ms\<rparr>
    \<and> min (limit fs) (int (length ms)) = int (length (take (nat (limit fs)) ms))"
  using assms by (auto simp: assemble_def py_slice_to_take)

text \<open>
  With limit 2 on the sample chart page, whose four records have the ranks 3, 1, 2, 5,
  the count is 2 and the movies are the first two records, with their ranks 3 and 1.
\<close>

theorem assemble_count_witness:
  "map_sum id (\<lambda>r. (count r, map rank (movies r)))
     (assemble chart_loads DEFAULT_CHART_URL \<lparr>limit = 2, sort' = ''RANKING'', direction = ''desc''\<rparr>
        \<lparr>status_code = 200, text' = chart_page\<rparr>) = Inr (2, [3, 1])"
proof -
  let ?fs = "\<lparr>limit = 2, sort' = ''RANKING'', direction = ''desc''\<rparr>"
  let ?resp = "\<lparr>status_code = 200, text' = chart_page\<rparr>"
  let ?ms = "[make_record chart_index 1 [(''url'', JStr ''/title/tt3/'')],
              make_record chart_index 3 [(''url'', JStr ''/title/tt1/'')],
              make_record chart_index 4 [(''url'', JStr ''/title/tt2/'')],
              make_record chart_index 5 []]"
  have lo: "1 \<le> limit ?fs" and hi: "limit ?fs \<le> 250"
    by simp_all
  have p: "parse_top250_from_html chart_loads (text' ?resp) = Inr ?ms"
    by code_simp
  have r: "map rank (take 2 ?ms) = [3, 1]"
    by code_simp
  have two: "nat (limit ?fs) = 2"
    by simp
  show ?thesis
    using assemble_count [OF lo hi p, of DEFAULT_CHART_URL] r
    by (simp add: two del: take_Suc_Cons)
qed

section \<open>The fetcher\<close>




lemma fetch_chart_result:
  "fst (fetch_chart loads get fs w) =
     (case fst (fetch_page get (build_chart_url fs) w) of
        Inl e \<Rightarrow> Inl e
      | Inr resp \<Rightarrow>
          (case raise_for_status resp of
             Inl e \<Rightarrow> Inl e
           | Inr _ \<Rightarrow> assemble loads (build_chart_url fs) fs resp))"
  by (auto simp: fetch_chart_def Let_def split: prod.splits sum.splits)








section \<open>The pipeline on a page without an item list\<close>

lemma rank_loop_total:
  "\<forall>(t, r)\<in>set ms. length r \<le> int_max_str_digits \<Longrightarrow> \<exists>idx. rank_loop ms m = Inr idx"
  by (induction ms m rule: rank_loop.induct) (auto simp: int_of_digits_def)

text \<open>
  The rank index is built without error on every page whose anchor ranks have at most
  4300 digits.
\<close>

lemma rank_by_tconst_of_total:
  "\<forall>(t, r)\<in>set (findall_rank html_text). length r \<le> int_max_str_digits \<Longrightarrow>
     \<exists>idx. rank_by_tconst_of html_text = Inr idx"
  unfolding rank_by_tconst_of_def by (rule rank_loop_total)

lemma select_None_parse:
  assumes "rank_by_tconst_of html_text = Inr idx"
    and "\<forall>b\<in>set (findall_script html_text). passed_over (\<lambda>s. loads (py_strip s)) b"
  shows "parse_top250_from_html loads html_text = Inr []"
proof -
  have "select_item_list loads (findall_script html_text) = Inr None"
    unfolding select_via_spider using assms(2) by (rule spider_select_all_passed)
  with assms(1) show ?thesis
    by (simp add: parse_top250_from_html_def)
qed

text \<open>
  C7, as the program has it. Let the filters be normalised, let the fetcher end with a
  response whose status passes the status check, let the rank index of its body be built
  without error (\<^verbatim>\<open>int()\<close> raises \<^verbatim>\<open>ValueError\<close> on a rank of more than 4300 digits), and
  let every script block of the body be passed over: it is not JSON, or it parses to a
  value that is not an item list object. Then \<^verbatim>\<open>fetch_chart\<close> raises nothing and returns
  a result with no movies and count 0, whose diagnostics are the status of the response,
  the length of its body and the number of its script blocks. Nothing is said here of a
  body with a block on which \<^verbatim>\<open>json.loads\<close> raises another exception.
\<close>

theorem no_item_list_result:
  assumes "normalized fs"
    and "fst (fetch_page get (build_chart_url fs) w) = Inr resp"
    and "\<not> (400 \<le> status_code resp \<and> status_code resp < 600)"
    and "rank_by_tconst_of (text' resp) = Inr idx"
    and "\<forall>b\<in>set (findall_script (text' resp)). passed_over (\<lambda>s. loads (py_strip s)) b"
  shows "fst (fetch_chart loads get fs w) =
           Inr \<lparr>url' = build_chart_url fs, filters = fs,
                diagnostics =
                  \<lparr>http_status = status_code resp,
                   html_length = int (length (text' resp)),
                   ldjson_blocks = int (length (findall_script (text' resp)))\<rparr>,
                count = 0,
                movies = []\<rparr>"
proof -
  have "parse_top250_from_html loads (text' resp) = Inr []"
    using assms(4,5) by (rule select_None_parse)
  moreover have "0 \<le> limit fs"
    using assms(1) by (simp add: normalized_def)
  ultimately have "assemble loads (build_chart_url fs) fs resp =
           Inr \<lparr>url' = build_chart_url fs, filters = fs,
                diagnostics =
                  \<lparr>http_status = status_code resp,
                   html_length = int (length (text' resp)),
                   ldjson_blocks = int (length (findall_script (text' resp)))\<rparr>,
                count = 0,
                movies = []\<rparr>"
    by (simp add: assemble_def py_slice_to_def)
  then show ?thesis
    using assms(2,3) by (simp add: fetch_chart_result raise_for_status_def)
qed

text \<open>
  A page of 74 characters, without anchors, whose only script block describes a single
  movie: the result has no movies, count 0, status 200, length 74 and one script block.
\<close>

theorem no_item_list_result_witness:
  "fst (fetch_chart movie_loads
          (replay [Inr \<lparr>status_code = 200, text' = movie_page\<rparr>,
                   Inr \<lparr>status_code = 200, text' = movie_page\<rparr>]) default_filters 0) =
     Inr \<lparr>url' = DEFAULT_CHART_URL, filters = default_filters,
          diagnostics = \<lparr>http_status = 200, html_length = 74, ldjson_blocks = 1\<rparr>,
          count = 0, movies = []\<rparr>"
proof -
  let ?get = "replay [Inr \<lparr>status_code = 200, text' = movie_page\<rparr>,
                   Inr \<lparr>status_code = 200, text' = movie_page\<rparr>]"
  let ?resp = "\<lparr>status_code = 200, text' = movie_page\<rparr>"
  have n: "normalized default_filters"
    by (simp add: normalized_def default_filters_def SORT_OPTIONS_def)
  have p: "fst (fetch_page ?get (build_chart_url default_filters) 0) = Inr ?resp"
    by code_simp
  have s: "\<not> (400 \<le> status_code ?resp \<and> status_code ?resp < 600)"
    by simp
  have f: "findall_rank movie_page = []"
    by code_simp
  have i: "rank_by_tconst_of (text' ?resp) = Inr Map.empty"
    by (simp add: rank_by_tconst_of_def f)
  have q: "\<forall>b\<in>set (findall_script (text' ?resp)). passed_over (\<lambda>s. movie_loads (py_strip s)) b"
    by code_simp
  have u: "build_chart_url default_filters = DEFAULT_CHART_URL"
    by (simp add: build_chart_url_def default_filters_def)
  have l: "int (length movie_page) = 74"
    by code_simp
  have k: "int (length (findall_script movie_page)) = 1"
    by code_simp
  show ?thesis
    using no_item_list_result [OF n p s i q] by (simp add: u l k)
qed

lemma takeWhile_replicate_append:
  "P x \<Longrightarrow> takeWhile P (replicate n x @ ys) = replicate n x @ takeWhile P ys"
  by (induction n) simp_all

lemma dropWhile_replicate_append: "P x \<Longrightarrow> dropWhile P (replicate n x @ ys) = dropWhile P ys"
  by (induction n) simp_all

lemma search_rank_long:
  assumes "0 < n"
  shows "search_rank (''<a href=\"/title/tt1/?ref_=chttp_t_'' @ replicate n (CHR ''1'') @ ''\">x</a>'')
     = Some (''tt1'', replicate n (CHR ''1''), ''\">x</a>'')"
proof -
  have d: "is_digit (CHR ''1'')"
    by (simp add: is_digit_def)
  have nd: "\<not> is_digit (CHR ''/'')" "\<not> is_digit (CHR 0x22)"
    by (simp_all add: is_digit_def)
  show ?thesis
    using assms d nd
    by (simp add: match_rank_def takeWhile_replicate_append dropWhile_replicate_append)
qed

lemma parse_long_rank_page: "parse_top250_from_html loads long_rank_page = Inl ValueError"
proof -
  have "search_rank long_rank_page = Some (''tt1'', replicate 4301 (CHR ''1''), ''\">x</a>'')"
    unfolding long_rank_page_def by (rule search_rank_long) simp
  then have "findall_rank long_rank_page
      = (''tt1'', replicate 4301 (CHR ''1'')) # findall_rank ''\">x</a>''"
    by (simp add: findall_rank.simps [of long_rank_page])
  then have "rank_by_tconst_of long_rank_page = Inl ValueError"
    by (simp add: rank_by_tconst_of_def int_of_digits_def int_max_str_digits_def)
  then show ?thesis
    by (simp add: parse_top250_from_html_def)
qed

text \<open>
  C7 as stated promises a result for every fetched page without a qualifying block. A
  page that has no script block at all, and one anchor whose rank has 4301 digits, is
  fetched with status 200; the conversion of the rank raises \<^verbatim>\<open>ValueError\<close> and no
  result is returned.
\<close>

theorem long_rank_value_error:
  "fst (fetch_chart no_json
          (replay [Inr \<lparr>status_code = 200, text' = long_rank_page\<rparr>,
                   Inr \<lparr>status_code = 200, text' = long_rank_page\<rparr>]) default_filters 0)
     = Inl ValueError"
proof -
  let ?resp = "\<lparr>status_code = 200, text' = long_rank_page\<rparr>"
  let ?get = "replay [Inr ?resp, Inr ?resp]"
  have short: "length (text' ?resp) < 10000"
    by (simp add: long_rank_page_def)
  have "fetch_page ?get (build_chart_url default_filters) 0 =
          (Inr ?resp,
           [(build_chart_url default_filters, request_headers),
            (build_chart_url default_filters, retry_headers)], 2)"
    using short by (simp add: fetch_page_def replay_def)
  then have "fst (fetch_chart no_json ?get default_filters 0) =
          assemble no_json (build_chart_url default_filters) default_filters ?resp"
    by (simp add: fetch_chart_result raise_for_status_def)
  then show ?thesis
    by (simp add: assemble_def parse_long_rank_page)
qed

section \<open>The retried response\<close>

text \<open>
  The usability check is made on the first response only. Whatever the second response
  looks like, once its status passes the status check \<^verbatim>\<open>fetch_chart\<close> goes on to
  parse it and to assemble the result from it.
\<close>

lemma retry_response_accepted:
  assumes "get (build_chart_url fs) request_headers w = (Inr r1, w1)"
    and "status_code r1 = 202 \<or> text' r1 = [] \<or> length (text' r1) < 10000"
    and "get (build_chart_url fs) retry_headers w1 = (Inr r2, w2)"
    and "\<not> (400 \<le> status_code r2 \<and> status_code r2 < 600)"
  shows "fetch_chart loads get fs w =
           (assemble loads (build_chart_url fs) fs r2,
            [(build_chart_url fs, request_headers), (build_chart_url fs, retry_headers)], w2)"
  using assms by (auto simp: fetch_chart_def fetch_page_def raise_for_status_def Let_def)

text \<open>
  C10. A retried response that still looks like a placeholder but has a 2xx status is to
  be accepted without any error. The first response here has status 202 and an empty
  body; the retry has status 200 and a body of under 10,000 characters whose script
  block is an item list with \<^verbatim>\<open>null\<close> for its "itemListElement". No second usability
  check rejects it, but \<^verbatim>\<open>fetch_chart\<close> raises \<^verbatim>\<open>TypeError\<close>: the merger enumerates a
  value that cannot be iterated.
\<close>

theorem retry_type_error:
  "fst (fetch_chart null_list_loads
          (replay [Inr \<lparr>status_code = 202, text' = []\<rparr>,
                   Inr \<lparr>status_code = 200, text' = null_list_page\<rparr>]) default_filters 0)
     = Inl TypeError"
  by code_simp

end
